theory Spec2Isabelle
  imports Main
begin

section \<open>Text primitives of the host language\<close>

text \<open>
  The converter of \<^verbatim>\<open>dephell/converters/egginfo.py\<close> works on Python \<^verbatim>\<open>str\<close> values.
  A text is modelled as a \<^typ>\<open>string\<close>, each \<^typ>\<open>char\<close> being read as one code point
  in the range 0..255. The functions of this section are the built-in string methods the
  converter calls, written out.
\<close>

definition LF :: char where "LF = CHR 0x0A"
definition CR :: char where "CR = CHR 0x0D"
definition TAB :: char where "TAB = CHR 0x09"
definition SP :: char where "SP = CHR 0x20"

text \<open>\<^verbatim>\<open>str.isspace\<close> on one code point below 256: the characters \<^verbatim>\<open>str.strip()\<close> and
  \<^verbatim>\<open>str.split()\<close> (both without argument) treat as whitespace.\<close>

definition isspace :: "char \<Rightarrow> bool" where
  "isspace c =
     (let n = (of_char c :: nat)
      in (9 \<le> n \<and> n \<le> 13) \<or> (28 \<le> n \<and> n \<le> 32) \<or> n = 133 \<or> n = 160)"

text \<open>\<^verbatim>\<open>s.lstrip(chars)\<close> and \<^verbatim>\<open>s.rstrip(chars)\<close>, the set of characters given as a predicate.\<close>

definition lstrip :: "(char \<Rightarrow> bool) \<Rightarrow> string \<Rightarrow> string" where
  "lstrip p s = dropWhile p s"

definition rstrip :: "(char \<Rightarrow> bool) \<Rightarrow> string \<Rightarrow> string" where
  "rstrip p s = rev (dropWhile p (rev s))"

text \<open>\<^verbatim>\<open>s.strip()\<close>.\<close>

definition strip :: "string \<Rightarrow> string" where
  "strip s = rstrip isspace (lstrip isspace s)"

text \<open>\<^verbatim>\<open>s.lower()\<close>; the converter lowers header names only, which are ASCII.\<close>

definition lower_char :: "char \<Rightarrow> char" where
  "lower_char c =
     (let n = (of_char c :: nat) in if 65 \<le> n \<and> n \<le> 90 then char_of (n + 32) else c)"

definition lower :: "string \<Rightarrow> string" where
  "lower s = map lower_char s"

text \<open>\<^verbatim>\<open>sub in s\<close> on strings: \<^verbatim>\<open>sub\<close> occurs in \<^verbatim>\<open>s\<close> as a contiguous piece.\<close>

fun contains :: "string \<Rightarrow> string \<Rightarrow> bool" where
  "contains [] sub = (sub = [])"
| "contains (c # cs) sub = (take (length sub) (c # cs) = sub \<or> contains cs sub)"

text \<open>\<^verbatim>\<open>s.split(sep)\<close> for a one-character separator: empty pieces are kept, and the
  empty text gives one empty piece.\<close>

fun split_sep :: "char \<Rightarrow> string \<Rightarrow> string list" where
  "split_sep sep [] = [[]]"
| "split_sep sep (c # cs) =
     (if c = sep then [] # split_sep sep cs
      else (case split_sep sep cs of
              [] \<Rightarrow> [[c]]
            | p # ps \<Rightarrow> (c # p) # ps))"

text \<open>\<^verbatim>\<open>s.split()\<close>: the maximal runs of non-whitespace characters. The first argument
  is the token being read.\<close>

fun split_from :: "string \<Rightarrow> string \<Rightarrow> string list" where
  "split_from cur [] = (if cur = [] then [] else [cur])"
| "split_from cur (c # cs) =
     (if isspace c then (if cur = [] then split_from [] cs else cur # split_from [] cs)
      else split_from (cur @ [c]) cs)"

definition split :: "string \<Rightarrow> string list" where
  "split s = split_from [] s"

text \<open>\<^verbatim>\<open>sep.join(xs)\<close>.\<close>

fun join :: "string \<Rightarrow> string list \<Rightarrow> string" where
  "join sep [] = []"
| "join sep [x] = x"
| "join sep (x # y # ys) = x @ sep @ join sep (y # ys)"

section \<open>The header parser of the standard library\<close>

text \<open>
  \<^verbatim>\<open>_parse_info\<close> reads its input with \<^verbatim>\<open>email.parser.Parser().parsestr(content)\<close> and then
  only calls \<^verbatim>\<open>get\<close> and \<^verbatim>\<open>get_all\<close> on the message, which look at the list of
  (name, value) headers of the top-level message. This section follows
  \<^verbatim>\<open>email.feedparser\<close> under the default \<^verbatim>\<open>compat32\<close> policy as far as that list goes.
\<close>

text \<open>The feed parser cracks the input into lines that keep their line ends; a line ends
  at \<^verbatim>\<open>\n\<close>, at \<^verbatim>\<open>\r\n\<close> or at a lone \<^verbatim>\<open>\r\<close>. The first argument is the line being read.\<close>

fun readlines_from :: "string \<Rightarrow> string \<Rightarrow> string list" where
  "readlines_from cur [] = (if cur = [] then [] else [cur])"
| "readlines_from cur [c] = [cur @ [c]]"
| "readlines_from cur (c # d # cs) =
     (if c = LF then (cur @ [c]) # readlines_from [] (d # cs)
      else if c = CR then
        (if d = LF then (cur @ [c, d]) # readlines_from [] cs
         else (cur @ [c]) # readlines_from [] (d # cs))
      else readlines_from (cur @ [c]) (d # cs))"

definition readlines :: "string \<Rightarrow> string list" where
  "readlines s = readlines_from [] s"

text \<open>\<^verbatim>\<open>NLCRE.match(line)\<close>: the line starts with a line end.\<close>

definition NLCRE_match :: "string \<Rightarrow> bool" where
  "NLCRE_match line = (case line of [] \<Rightarrow> False | c # _ \<Rightarrow> c = LF \<or> c = CR)"

text \<open>The characters of a header name, \<^verbatim>\<open>[\041-\071\073-\176]\<close>: printable ASCII without
  the space and the colon.\<close>

definition ftext :: "char \<Rightarrow> bool" where
  "ftext c = (let n = (of_char c :: nat) in 33 \<le> n \<and> n \<le> 126 \<and> n \<noteq> 58)"

text \<open>\<^verbatim>\<open>headerRE.match(line)\<close> with
  \<^verbatim>\<open>headerRE = re.compile(r'^(From |[\041-\071\073-\176]*:|[\t ])')\<close>.\<close>

definition startswith :: "string \<Rightarrow> string \<Rightarrow> bool" where
  "startswith s p = (take (length p) s = p)"

definition headerRE_match :: "string \<Rightarrow> bool" where
  "headerRE_match line =
     (startswith line ''From ''
      \<or> (case dropWhile ftext line of [] \<Rightarrow> False | c # _ \<Rightarrow> c = CHR '':'')
      \<or> (case line of [] \<Rightarrow> False | c # _ \<Rightarrow> c = TAB \<or> c = SP))"

text \<open>\<^verbatim>\<open>Compat32.header_source_parse\<close>: the name is the text before the first colon of the
  first source line; the value is the rest of that line without leading blanks and tabs,
  followed by the continuation lines, without trailing line ends.\<close>

definition header_source_parse :: "string list \<Rightarrow> string \<times> string" where
  "header_source_parse sourcelines =
     (case sourcelines of
        [] \<Rightarrow> ([], [])
      | l # ls \<Rightarrow>
          (takeWhile (\<lambda>c. c \<noteq> CHR '':'') l,
           rstrip (\<lambda>c. c = CR \<or> c = LF)
             (lstrip (\<lambda>c. c = SP \<or> c = TAB) (drop 1 (dropWhile (\<lambda>c. c \<noteq> CHR '':'') l))
              @ concat ls)))"

text \<open>\<^verbatim>\<open>FeedParser._parse_headers(lines)\<close>. The arguments are the index of the current line,
  the number of lines, \<^verbatim>\<open>lastheader\<close>, \<^verbatim>\<open>lastvalue\<close> and the lines still to read; the result
  is the list of headers stored with \<^verbatim>\<open>set_raw\<close>, in order. A line starting with
  \<^verbatim>\<open>From \<close> is the envelope line when it is the first, ends the headers when it is the
  last, and is skipped otherwise; a line starting with a colon is skipped.\<close>

fun parse_headers_from ::
  "nat \<Rightarrow> nat \<Rightarrow> string \<Rightarrow> string list \<Rightarrow> string list \<Rightarrow> (string \<times> string) list" where
  "parse_headers_from lineno n lastheader lastvalue [] =
     (if lastheader \<noteq> [] then [header_source_parse lastvalue] else [])"
| "parse_headers_from lineno n lastheader lastvalue (line # rest) =
     (if startswith line [SP] \<or> startswith line [TAB] then
        (if lastheader = [] then parse_headers_from (Suc lineno) n lastheader lastvalue rest
         else parse_headers_from (Suc lineno) n lastheader (lastvalue @ [line]) rest)
      else
        (if lastheader \<noteq> [] then [header_source_parse lastvalue] else [])
        @ (if startswith line ''From '' then
             (if lineno = 0 then parse_headers_from (Suc lineno) n [] [] rest
              else if lineno = n - 1 then []
              else parse_headers_from (Suc lineno) n [] [] rest)
           else
             (let i = length (takeWhile (\<lambda>c. c \<noteq> CHR '':'') line)
              in if i = 0 then parse_headers_from (Suc lineno) n [] [] rest
                 else parse_headers_from (Suc lineno) n (take i line) [line] rest)))"

definition parse_headers :: "string list \<Rightarrow> (string \<times> string) list" where
  "parse_headers lines = parse_headers_from 0 (length lines) [] [] lines"

text \<open>\<^verbatim>\<open>Parser().parsestr(content)\<close>, reduced to the headers of the message: the header
  lines are the lines before the first one that \<^verbatim>\<open>headerRE\<close> does not match.\<close>

definition parsestr :: "string \<Rightarrow> (string \<times> string) list" where
  "parsestr content = parse_headers (takeWhile headerRE_match (readlines content))"

text \<open>\<^verbatim>\<open>Message.get(name)\<close>: the value of the first header of that name, names compared
  without case; \<^verbatim>\<open>None\<close> when there is none.\<close>

fun msg_get :: "(string \<times> string) list \<Rightarrow> string \<Rightarrow> string option" where
  "msg_get [] name = None"
| "msg_get ((k, v) # hs) name = (if lower k = lower name then Some v else msg_get hs name)"

text \<open>\<^verbatim>\<open>Message.get_all(name)\<close>: the values of all headers of that name, in order;
  \<^verbatim>\<open>None\<close> when there is none.\<close>

definition msg_get_all :: "(string \<times> string) list \<Rightarrow> string \<Rightarrow> string list option" where
  "msg_get_all hs name =
     (let values = map snd (filter (\<lambda>kv. lower (fst kv) = lower name) hs)
      in if values = [] then None else Some values)"

section \<open>The project model\<close>

record Author =
  name :: string
  mail :: string

text \<open>A requirement as \<^verbatim>\<open>packaging.requirements.Requirement\<close> gives it: name, extras,
  version specifier and environment marker (empty when absent).\<close>

record Requirement =
  req_name :: string
  req_extras :: "string list"
  req_specifier :: string
  req_marker :: string

text \<open>A dependency: the fields \<^verbatim>\<open>name\<close>, \<^verbatim>\<open>extras\<close>, \<^verbatim>\<open>version\<close>, \<^verbatim>\<open>markers\<close> that
  \<^verbatim>\<open>_format_req\<close> reads, and \<^verbatim>\<open>source\<close>, the project that declares it, kept as that
  project's name.\<close>

record Dependency =
  dep_name :: string
  dep_extras :: "string list"
  dep_version :: string
  dep_markers :: string
  dep_source :: string

text \<open>The readme of a project, as far as \<^verbatim>\<open>dumps\<close> uses it: its rendering \<^verbatim>\<open>as_rst()\<close>.\<close>

record Readme =
  as_rst :: string

record RootDependency =
  raw_name :: string
  version :: string
  description :: string
  license :: string
  keywords' :: "string list"
  classifiers :: "string list"
  platforms :: "string list"
  links :: "string \<rightharpoonup> string"
  authors :: "Author list"
  dependencies :: "Dependency list"
  readme :: "Readme option"

datatype error =
  FileNotFoundError string
| FileExistsError string
| InvalidRequirement string

text \<open>Modelled from the spec: the class \<^verbatim>\<open>RootDependency\<close> of \<^verbatim>\<open>dephell/models\<close> is not
  among the sources. A project built from a name alone has the version \<^verbatim>\<open>0.0.0\<close>, empty
  description and license, no keywords, classifiers, platforms, links, authors or
  dependencies, and no readme.\<close>

definition RootDependency_init :: "string \<Rightarrow> RootDependency" where
  "RootDependency_init n =
     \<lparr>raw_name = n, version = ''0.0.0'', description = [], license = [],
      keywords' = [], classifiers = [], platforms = [], links = Map.empty,
      authors = [], dependencies = [], readme = None\<rparr>"

text \<open>Modelled from the spec: \<^verbatim>\<open>DependencyMaker.from_requirement\<close> of \<^verbatim>\<open>dephell/controllers\<close>
  is not among the sources. It turns one parsed requirement and its declaring project
  into one or more dependencies that refer back to the project: one record when the
  requirement has no extras, one record for each extra otherwise.\<close>

definition from_requirement :: "RootDependency \<Rightarrow> Requirement \<Rightarrow> Dependency list" where
  "from_requirement source req =
     (let base = \<lparr>dep_name = req_name req, dep_extras = [], dep_version = req_specifier req,
                  dep_markers = req_marker req, dep_source = raw_name source\<rparr>
      in if req_extras req = [] then [base]
         else map (\<lambda>e. base\<lparr>dep_extras := [e]\<rparr>) (req_extras req))"

text \<open>Modelled from the spec: \<^verbatim>\<open>RootDependency.attach_dependencies\<close> is not among the
  sources. The given dependencies are appended to those of the project, in their order;
  duplicates among them are not collapsed at parse time.\<close>

definition attach_dependencies :: "RootDependency \<Rightarrow> Dependency list \<Rightarrow> RootDependency" where
  "attach_dependencies root deps = root\<lparr>dependencies := dependencies root @ deps\<rparr>"

section \<open>The egg-info converter\<close>

text \<open>What the converter takes from outside the repository and from its base class:
  the requirement parser \<^verbatim>\<open>packaging.requirements.Requirement\<close>, which returns a
  requirement or raises (\<open>None\<close>), and \<^verbatim>\<open>BaseConverter._get_name\<close>, which guesses a project
  name from a text.\<close>

record externals =
  PackagingRequirement :: "string \<Rightarrow> Requirement option"
  get_name :: "string \<Rightarrow> string"

text \<open>\<^verbatim>\<open>EggInfoConverter._get(msg, name)\<close>.\<close>

definition egg_get :: "(string \<times> string) list \<Rightarrow> string \<Rightarrow> string" where
  "egg_get msg nm =
     (case msg_get msg nm of
        None \<Rightarrow> []
      | Some v \<Rightarrow>
          if v = [] then []
          else (let v' = strip v in if v' = ''UNKNOWN'' then [] else v'))"

text \<open>\<^verbatim>\<open>EggInfoConverter._get_list(msg, name)\<close>.\<close>

definition egg_get_list :: "(string \<times> string) list \<Rightarrow> string \<Rightarrow> string list" where
  "egg_get_list msg nm =
     (case msg_get_all msg nm of
        None \<Rightarrow> []
      | Some vs \<Rightarrow> map strip (filter (\<lambda>v. strip v \<noteq> ''UNKNOWN'') vs))"

text \<open>The loop shared by \<^verbatim>\<open>_parse_info\<close> and \<^verbatim>\<open>_parse_requires\<close>: every text is parsed as
  a requirement and handed to the factory; the first text the parser refuses ends the
  call with its error.\<close>

fun collect_deps :: "externals \<Rightarrow> RootDependency \<Rightarrow> string list \<Rightarrow> error + Dependency list" where
  "collect_deps ext root [] = Inr []"
| "collect_deps ext root (r # rs) =
     (case PackagingRequirement ext r of
        None \<Rightarrow> Inl (InvalidRequirement r)
      | Some req \<Rightarrow>
          (case collect_deps ext root rs of
             Inl e \<Rightarrow> Inl e
           | Inr ds \<Rightarrow> Inr (from_requirement root req @ ds)))"

text \<open>The link fields of \<^verbatim>\<open>_parse_info\<close> and \<^verbatim>\<open>dumps\<close>: key of the model, name of the header.\<close>

definition link_fields :: "(string \<times> string) list" where
  "link_fields = [(''home'', ''Home-Page''), (''download'', ''Download-URL''),
                  (''project'', ''Project-URL'')]"

definition add_link :: "(string \<times> string) list \<Rightarrow> RootDependency \<Rightarrow> string \<times> string \<Rightarrow> RootDependency" where
  "add_link info root kn =
     (let link = egg_get info (snd kn)
      in if link \<noteq> [] then root\<lparr>links := (links root)(fst kn \<mapsto> link)\<rparr> else root)"

definition add_author :: "(string \<times> string) list \<Rightarrow> RootDependency \<Rightarrow> string \<Rightarrow> RootDependency" where
  "add_author info root nm =
     (let author = egg_get info nm
      in if author \<noteq> [] then
           root\<lparr>authors := authors root @ [\<lparr>name = author, mail = egg_get info (nm @ ''_email'')\<rparr>]\<rparr>
         else root)"

text \<open>The project \<^verbatim>\<open>_parse_info\<close> has built when it reaches the dependencies.\<close>

definition info_root :: "(string \<times> string) list \<Rightarrow> RootDependency" where
  "info_root info =
     (let root = (RootDependency_init (egg_get info ''Name''))
           \<lparr>version := (let v = egg_get info ''Version'' in if v \<noteq> [] then v else ''0.0.0''),
            description := egg_get info ''Summary'',
            license := egg_get info ''License'',
            keywords' := split_sep (CHR '','') (egg_get info ''Keywords''),
            classifiers := egg_get_list info ''Classifier'',
            platforms := egg_get_list info ''Platform''\<rparr>;
          root = foldl (add_link info) root link_fields;
          root = foldl (add_author info) root [''author'', ''maintainer'']
      in root)"

text \<open>\<^verbatim>\<open>EggInfoConverter._parse_info(content)\<close>; \<open>chain_requires\<close> is the chain of the
  \<^verbatim>\<open>Requires\<close> and \<^verbatim>\<open>Requires-Dist\<close> values that its last loop runs over.\<close>

definition chain_requires :: "(string \<times> string) list \<Rightarrow> string list" where
  "chain_requires info = egg_get_list info ''Requires'' @ egg_get_list info ''Requires-Dist''"

definition parse_info :: "externals \<Rightarrow> string \<Rightarrow> error + RootDependency" where
  "parse_info ext content =
     (let info = parsestr content;
          root = info_root info;
          reqs = chain_requires info
      in case collect_deps ext root reqs of
           Inl e \<Rightarrow> Inl e
         | Inr deps \<Rightarrow> Inr (attach_dependencies root deps))"

text \<open>\<^verbatim>\<open>EggInfoConverter._parse_requires(content, root=None)\<close>.\<close>

definition parse_requires ::
  "externals \<Rightarrow> string \<Rightarrow> RootDependency option \<Rightarrow> error + RootDependency" where
  "parse_requires ext content root_opt =
     (let root = (case root_opt of
                    None \<Rightarrow> RootDependency_init (get_name ext content)
                  | Some r \<Rightarrow> r)
      in case collect_deps ext root (split content) of
           Inl e \<Rightarrow> Inl e
         | Inr deps \<Rightarrow> Inr (attach_dependencies root deps))"

text \<open>\<^verbatim>\<open>EggInfoConverter.loads(content)\<close>.\<close>

definition loads :: "externals \<Rightarrow> string \<Rightarrow> error + RootDependency" where
  "loads ext content =
     (if contains content ''Name: '' then parse_info ext content
      else parse_requires ext content None)"

text \<open>\<^verbatim>\<open>EggInfoConverter._load_dir(*paths)\<close>. A path is the list of its components, the
  file system a map from the paths of readable files to their contents; opening a file
  that is not there raises \<^verbatim>\<open>FileNotFoundError\<close> with the message of the operating system,
  \<^verbatim>\<open>[Errno 2] No such file or directory:\<close> and the quoted path.\<close>

type_synonym path = "string list"

definition open_read :: "(path \<rightharpoonup> string) \<Rightarrow> path \<Rightarrow> error + string" where
  "open_read fs p =
     (case fs p of
        None \<Rightarrow> Inl (FileNotFoundError (''[Errno 2] No such file or directory: ''
                                       @ [CHR 0x27] @ join ''/'' p @ [CHR 0x27]))
      | Some content \<Rightarrow> Inr content)"

definition load_dir :: "externals \<Rightarrow> (path \<rightharpoonup> string) \<Rightarrow> path list \<Rightarrow> error + RootDependency" where
  "load_dir ext fs paths =
     (if paths = [] then Inl (FileNotFoundError ''cannot find egg-info'')
      else if length paths > 1 then Inl (FileExistsError ''too many egg-info'')
      else
        (let path = hd paths
         in case open_read fs (path @ [''PKG-INFO'']) of
              Inl e \<Rightarrow> Inl e
            | Inr content \<Rightarrow>
                (case parse_info ext content of
                   Inl e \<Rightarrow> Inl e
                 | Inr root \<Rightarrow>
                     if dependencies root = [] then
                       (case open_read fs (path @ [''requires.txt'']) of
                          Inl e \<Rightarrow> Inl e
                        | Inr content' \<Rightarrow> parse_requires ext content' (Some root))
                     else Inr root)))"

text \<open>\<^verbatim>\<open>EggInfoConverter._format_req(req)\<close>.\<close>

definition format_req :: "Dependency \<Rightarrow> string" where
  "format_req req =
     (let line = dep_name req;
          line = (if dep_extras req \<noteq> [] then line @ ''['' @ join '','' (dep_extras req) @ '']''
                  else line);
          line = (if dep_version req \<noteq> [] then line @ dep_version req else line);
          line = (if dep_markers req \<noteq> [] then line @ ''; '' @ dep_markers req else line)
      in line)"

text \<open>\<^verbatim>\<open>EggInfoConverter.dumps(reqs, project, content=None)\<close>. The first statement of the
  body binds \<^verbatim>\<open>content\<close> to a new empty list, so the argument is never read.\<close>

definition dumps :: "Dependency list \<Rightarrow> RootDependency \<Rightarrow> string option \<Rightarrow> string" where
  "dumps reqs project content =
     (let content = [];
          content = content @ [(''Metadata-Version'', ''2.1'')];
          content = content @ [(''Name'', raw_name project)];
          content = content @ [(''Version'', version project)];
          content = (if description project \<noteq> [] then content @ [(''Summary'', description project)]
                     else content);
          content = foldl (\<lambda>acc kn. case links project (fst kn) of
                                       None \<Rightarrow> acc
                                     | Some url \<Rightarrow> acc @ [(snd kn, url)])
                      content link_fields;
          content = (case authors project of
                       [] \<Rightarrow> content
                     | author # _ \<Rightarrow>
                         (let content = content @ [(''Author'', name author)]
                          in if mail author \<noteq> [] then content @ [(''Author-email'', mail author)]
                             else content));
          content = (case authors project of
                       _ # author # _ \<Rightarrow>
                         (let content = content @ [(''Maintainer'', name author)]
                          in if mail author \<noteq> [] then content @ [(''Maintainer-email'', mail author)]
                             else content)
                     | _ \<Rightarrow> content);
          content = (if license project \<noteq> [] then content @ [(''License'', license project)]
                     else content);
          content = (if keywords' project \<noteq> []
                     then content @ [(''Keywords'', join '','' (keywords' project))]
                     else content);
          content = content @ map (\<lambda>classifier. (''Classifier'', classifier)) (classifiers project);
          content = content @ map (\<lambda>platform. (''Platform'', platform)) (platforms project);
          content = content @ map (\<lambda>req. (''Requires'', format_req req)) reqs;
          text = join [LF] (map (\<lambda>kv. fst kv @ '': '' @ snd kv) content)
      in case readme project of
           None \<Rightarrow> text
         | Some r \<Rightarrow> text @ [LF, LF] @ as_rst r)"

section \<open>Inputs of the properties\<close>

text \<open>A header-form text: one line \<^verbatim>\<open>Field: value\<close> for each field, every line closed by
  a line feed, then nothing or a body that starts with an empty line. A field is well
  formed when its name is a non-empty run of printable ASCII characters without space
  and colon and its value holds no line end.\<close>

definition header_line :: "string \<Rightarrow> string \<Rightarrow> string" where
  "header_line k v = k @ '': '' @ v @ [LF]"

definition header_text :: "(string \<times> string) list \<Rightarrow> string" where
  "header_text hs = concat (map (\<lambda>kv. header_line (fst kv) (snd kv)) hs)"

definition wf_field :: "string \<times> string \<Rightarrow> bool" where
  "wf_field kv = (fst kv \<noteq> [] \<and> list_all ftext (fst kv)
                  \<and> list_all (\<lambda>c. c \<noteq> CR \<and> c \<noteq> LF) (snd kv))"

definition wf_body :: "string \<Rightarrow> bool" where
  "wf_body body = (body = [] \<or> NLCRE_match body)"

text \<open>The field of a name is there and its value, trimmed, is the sentinel; and the
  values of all fields of a name, as \<^verbatim>\<open>get_all\<close> lists them.\<close>

definition is_sentinel :: "(string \<times> string) list \<Rightarrow> string \<Rightarrow> bool" where
  "is_sentinel info nm = (case msg_get info nm of None \<Rightarrow> False | Some v \<Rightarrow> strip v = ''UNKNOWN'')"

definition field_values :: "(string \<times> string) list \<Rightarrow> string \<Rightarrow> string list" where
  "field_values info nm = map snd (filter (\<lambda>kv. lower (fst kv) = lower nm) info)"

text \<open>The requirement parser accepts every text of a list.\<close>

definition accepts :: "externals \<Rightarrow> string list \<Rightarrow> bool" where
  "accepts ext rs = list_all (\<lambda>r. PackagingRequirement ext r \<noteq> None) rs"

text \<open>An instance of the externals, for running the converter on examples: a parser for
  the fragment of the requirement grammar that is a name followed by a version
  specifier, without extras and marker, and a name guesser that answers \<^verbatim>\<open>root\<close>.\<close>

definition is_name_char :: "char \<Rightarrow> bool" where
  "is_name_char c =
     (let n = (of_char c :: nat)
      in (48 \<le> n \<and> n \<le> 57) \<or> (65 \<le> n \<and> n \<le> 90) \<or> (97 \<le> n \<and> n \<le> 122)
         \<or> n = 45 \<or> n = 46 \<or> n = 95)"

definition is_spec_char :: "char \<Rightarrow> bool" where
  "is_spec_char c =
     (let n = (of_char c :: nat)
      in (48 \<le> n \<and> n \<le> 57) \<or> (60 \<le> n \<and> n \<le> 62) \<or> n = 33 \<or> n = 126
         \<or> n = 44 \<or> n = 46 \<or> n = 42)"

definition plain_requirement :: "string \<Rightarrow> Requirement option" where
  "plain_requirement s =
     (let nm = takeWhile is_name_char s; rest = dropWhile is_name_char s
      in if nm \<noteq> [] \<and> list_all is_spec_char rest
         then Some \<lparr>req_name = nm, req_extras = [], req_specifier = rest, req_marker = []\<rparr>
         else None)"

definition plain_externals :: externals where
  "plain_externals =
     \<lparr>PackagingRequirement = plain_requirement, get_name = (\<lambda>content. ''root'')\<rparr>"

section \<open>Reading a field\<close>

lemma egg_get_absent: "msg_get msg nm = None \<Longrightarrow> egg_get msg nm = []"
  by (simp add: egg_get_def)

lemma egg_get_blank: "msg_get msg nm = Some v \<Longrightarrow> strip v = [] \<Longrightarrow> egg_get msg nm = []"
  by (simp add: egg_get_def Let_def)

lemma egg_get_sentinel:
  "msg_get msg nm = Some v \<Longrightarrow> strip v = ''UNKNOWN'' \<Longrightarrow> egg_get msg nm = []"
  by (simp add: egg_get_def Let_def)

lemma strip_Nil: "strip [] = []"
  by (simp add: strip_def lstrip_def rstrip_def)

lemma egg_get_value:
  "msg_get msg nm = Some v \<Longrightarrow> strip v \<noteq> ''UNKNOWN'' \<Longrightarrow> egg_get msg nm = strip v"
  by (auto simp: egg_get_def Let_def strip_Nil)

lemma egg_get_not_sentinel: "egg_get msg nm \<noteq> ''UNKNOWN''"
  by (auto simp: egg_get_def Let_def split: option.splits)

lemma egg_get_list_not_sentinel: "''UNKNOWN'' \<notin> set (egg_get_list msg nm)"
  by (auto simp: egg_get_list_def split: option.splits)

lemma egg_get_list_absent: "msg_get_all msg nm = None \<Longrightarrow> egg_get_list msg nm = []"
  by (simp add: egg_get_list_def)

lemma egg_get_list_eq:
  "egg_get_list msg nm =
     map strip (filter (\<lambda>v. strip v \<noteq> ''UNKNOWN'')
       (map snd (filter (\<lambda>kv. lower (fst kv) = lower nm) msg)))"
  by (simp add: egg_get_list_def msg_get_all_def Let_def)

section \<open>The project built from the headers\<close>

lemma add_link_sel:
  "raw_name (add_link info r kn) = raw_name r"
  "version (add_link info r kn) = version r"
  "description (add_link info r kn) = description r"
  "license (add_link info r kn) = license r"
  "keywords' (add_link info r kn) = keywords' r"
  "classifiers (add_link info r kn) = classifiers r"
  "platforms (add_link info r kn) = platforms r"
  "authors (add_link info r kn) = authors r"
  "dependencies (add_link info r kn) = dependencies r"
  "readme (add_link info r kn) = readme r"
  by (simp_all add: add_link_def Let_def)

lemma add_author_sel:
  "raw_name (add_author info r nm) = raw_name r"
  "version (add_author info r nm) = version r"
  "description (add_author info r nm) = description r"
  "license (add_author info r nm) = license r"
  "keywords' (add_author info r nm) = keywords' r"
  "classifiers (add_author info r nm) = classifiers r"
  "platforms (add_author info r nm) = platforms r"
  "links (add_author info r nm) = links r"
  "dependencies (add_author info r nm) = dependencies r"
  "readme (add_author info r nm) = readme r"
  by (simp_all add: add_author_def Let_def)

lemmas info_root_unfold = info_root_def Let_def link_fields_def RootDependency_init_def
  add_link_sel add_author_sel

lemma raw_name_info_root: "raw_name (info_root info) = egg_get info ''Name''"
  by (simp add: info_root_unfold)

lemma version_info_root:
  "version (info_root info) =
     (if egg_get info ''Version'' \<noteq> [] then egg_get info ''Version'' else ''0.0.0'')"
  by (simp add: info_root_unfold)

lemma description_info_root: "description (info_root info) = egg_get info ''Summary''"
  by (simp add: info_root_unfold)

lemma license_info_root: "license (info_root info) = egg_get info ''License''"
  by (simp add: info_root_unfold)

lemma keywords_info_root:
  "keywords' (info_root info) = split_sep (CHR '','') (egg_get info ''Keywords'')"
  by (simp add: info_root_unfold)

lemma classifiers_info_root: "classifiers (info_root info) = egg_get_list info ''Classifier''"
  by (simp add: info_root_unfold)

lemma platforms_info_root: "platforms (info_root info) = egg_get_list info ''Platform''"
  by (simp add: info_root_unfold)

lemma dependencies_info_root: "dependencies (info_root info) = []"
  by (simp add: info_root_unfold)

lemma readme_info_root: "readme (info_root info) = None"
  by (simp add: info_root_unfold)

lemma authors_info_root:
  "authors (info_root info) =
     (if egg_get info ''author'' \<noteq> []
      then [\<lparr>name = egg_get info ''author'', mail = egg_get info ''author_email''\<rparr>] else [])
     @ (if egg_get info ''maintainer'' \<noteq> []
        then [\<lparr>name = egg_get info ''maintainer'', mail = egg_get info ''maintainer_email''\<rparr>]
        else [])"
  by (simp add: info_root_unfold add_author_def)

lemma links_add_link:
  "links (add_link info r kn) =
     (if egg_get info (snd kn) \<noteq> [] then (links r)(fst kn \<mapsto> egg_get info (snd kn)) else links r)"
  by (simp add: add_link_def Let_def)

lemma links_info_root:
  "links (info_root info) key =
     (if key = ''project'' \<and> egg_get info ''Project-URL'' \<noteq> [] then Some (egg_get info ''Project-URL'')
      else if key = ''download'' \<and> egg_get info ''Download-URL'' \<noteq> [] then Some (egg_get info ''Download-URL'')
      else if key = ''home'' \<and> egg_get info ''Home-Page'' \<noteq> [] then Some (egg_get info ''Home-Page'')
      else None)"
  by (simp add: info_root_unfold links_add_link)


section \<open>Success and result of the header-form parse\<close>

lemma collect_deps_accepts:
  "accepts ext rs \<Longrightarrow> \<exists>deps. collect_deps ext root rs = Inr deps"
  by (induction rs) (auto simp: accepts_def)

lemma parse_info_Inr:
  "parse_info ext content = Inr root \<Longrightarrow>
     \<exists>deps. collect_deps ext (info_root (parsestr content)) (chain_requires (parsestr content)) = Inr deps
       \<and> root = (info_root (parsestr content))\<lparr>dependencies := deps\<rparr>"
  by (auto simp: parse_info_def Let_def attach_dependencies_def dependencies_info_root
      split: sum.splits)

lemma parse_info_accepts:
  "accepts ext (chain_requires (parsestr content)) \<Longrightarrow>
     \<exists>deps. parse_info ext content
       = Inr ((info_root (parsestr content))\<lparr>dependencies := deps\<rparr>)"
  using collect_deps_accepts [of ext "chain_requires (parsestr content)" "info_root (parsestr content)"]
  by (auto simp: parse_info_def Let_def attach_dependencies_def dependencies_info_root)


section \<open>Serialisation ignores its third argument\<close>

text \<open>C9. The \<^verbatim>\<open>content\<close> argument of \<^verbatim>\<open>dumps\<close> never influences the output: for every
  list of dependencies, every project and any two values of \<^verbatim>\<open>content\<close> the two documents
  are the same.\<close>

theorem dumps_ignores_content: "dumps reqs project c1 = dumps reqs project c2"
  by (simp add: dumps_def)

section \<open>Resolving the metadata directory\<close>

text \<open>C2. \<^verbatim>\<open>_load_dir\<close> called with no candidate directory fails with the error
  \<^verbatim>\<open>FileNotFoundError('cannot find egg-info')\<close>, called with two or more it fails with
  \<^verbatim>\<open>FileExistsError('too many egg-info')\<close>; in both cases no project is returned.\<close>

theorem load_dir_zero_or_many:
  "(paths = [] \<longrightarrow> load_dir ext fs paths = Inl (FileNotFoundError ''cannot find egg-info''))
   \<and> (2 \<le> length paths \<longrightarrow> load_dir ext fs paths = Inl (FileExistsError ''too many egg-info''))
   \<and> (paths = [] \<or> 2 \<le> length paths \<longrightarrow> (\<forall>root. load_dir ext fs paths \<noteq> Inr root))"
  by (auto simp: load_dir_def)

theorem load_dir_zero_or_many_witness:
  "load_dir plain_externals Map.empty [] = Inl (FileNotFoundError ''cannot find egg-info'')
   \<and> load_dir plain_externals Map.empty [[''a.egg-info''], [''b.egg-info'']]
       = Inl (FileExistsError ''too many egg-info'')"
  using load_dir_zero_or_many [of "[]" plain_externals Map.empty]
        load_dir_zero_or_many [of "[[''a.egg-info''], [''b.egg-info'']]" plain_externals Map.empty]
  by simp

section \<open>Defaults of the header-form parse\<close>

text \<open>C7. For every input text whose header block has no \<^verbatim>\<open>Version\<close> field, or whose
  \<^verbatim>\<open>Version\<close> value is empty after trimming, the header-form parse returns a project
  whose version is \<^verbatim>\<open>0.0.0\<close>. The parse returns a project whenever the requirement
  parser accepts the declared requirements.\<close>

theorem version_default:
  assumes "msg_get (parsestr content) ''Version'' = None
           \<or> (\<exists>v. msg_get (parsestr content) ''Version'' = Some v \<and> strip v = [])"
    and "accepts ext (chain_requires (parsestr content))"
  shows "\<exists>root. parse_info ext content = Inr root \<and> version root = ''0.0.0''"
proof -
  from assms(1) have "egg_get (parsestr content) ''Version'' = []"
    by (auto simp: egg_get_absent egg_get_blank)
  then have "version (info_root (parsestr content)) = ''0.0.0''"
    by (simp add: version_info_root)
  with parse_info_accepts [OF assms(2)] show ?thesis
    by auto
qed

theorem version_default_witness:
  "msg_get (parsestr ''Name: demo\<newline>Summary: a demo\<newline>'') ''Version'' = None
   \<and> (\<exists>root. parse_info plain_externals ''Name: demo\<newline>Summary: a demo\<newline>'' = Inr root
         \<and> version root = ''0.0.0'')
   \<and> msg_get (parsestr ''Name: demo\<newline>Version:   \<newline>'') ''Version'' = Some []
   \<and> (\<exists>root. parse_info plain_externals ''Name: demo\<newline>Version:   \<newline>'' = Inr root
         \<and> version root = ''0.0.0'')"
proof -
  have a1: "msg_get (parsestr ''Name: demo\<newline>Summary: a demo\<newline>'') ''Version'' = None"
    by code_simp
  have a2: "accepts plain_externals (chain_requires (parsestr ''Name: demo\<newline>Summary: a demo\<newline>''))"
    by code_simp
  have b1: "msg_get (parsestr ''Name: demo\<newline>Version:   \<newline>'') ''Version'' = Some []"
    by code_simp
  have b2: "accepts plain_externals (chain_requires (parsestr ''Name: demo\<newline>Version:   \<newline>''))"
    by code_simp
  from b1 have b3: "\<exists>v. msg_get (parsestr ''Name: demo\<newline>Version:   \<newline>'') ''Version'' = Some v \<and> strip v = []"
    by (simp add: strip_Nil)
  show ?thesis
    using a1 b1 version_default [OF disjI1 [OF a1] a2] version_default [OF disjI2 [OF b3] b2]
    by blast
qed

text \<open>C10. For every input text whose \<^verbatim>\<open>Keywords\<close> field is absent, empty after trimming
  or the sentinel \<^verbatim>\<open>UNKNOWN\<close>, the keywords of the resulting project are the one-element
  sequence that holds the empty string, not the empty sequence.\<close>

theorem keywords_default:
  assumes "msg_get (parsestr content) ''Keywords'' = None
           \<or> (\<exists>v. msg_get (parsestr content) ''Keywords'' = Some v
                  \<and> (strip v = [] \<or> strip v = ''UNKNOWN''))"
    and "accepts ext (chain_requires (parsestr content))"
  shows "\<exists>root. parse_info ext content = Inr root \<and> keywords' root = [[]]"
proof -
  from assms(1) have "egg_get (parsestr content) ''Keywords'' = []"
    by (auto simp: egg_get_absent egg_get_blank egg_get_sentinel)
  then have "keywords' (info_root (parsestr content)) = [[]]"
    by (simp add: keywords_info_root)
  with parse_info_accepts [OF assms(2)] show ?thesis
    by auto
qed

theorem keywords_default_witness:
  "msg_get (parsestr ''Name: demo\<newline>Keywords: UNKNOWN\<newline>'') ''Keywords'' = Some ''UNKNOWN''
   \<and> (\<exists>root. parse_info plain_externals ''Name: demo\<newline>Keywords: UNKNOWN\<newline>'' = Inr root
         \<and> keywords' root = [[]])
   \<and> msg_get (parsestr ''Name: demo\<newline>'') ''Keywords'' = None
   \<and> (\<exists>root. parse_info plain_externals ''Name: demo\<newline>'' = Inr root \<and> keywords' root = [[]])"
proof -
  have a1: "msg_get (parsestr ''Name: demo\<newline>Keywords: UNKNOWN\<newline>'') ''Keywords'' = Some ''UNKNOWN''"
    by code_simp
  have a2: "strip ''UNKNOWN'' = ''UNKNOWN''"
    by code_simp
  have a3: "accepts plain_externals (chain_requires (parsestr ''Name: demo\<newline>Keywords: UNKNOWN\<newline>''))"
    by code_simp
  have b1: "msg_get (parsestr ''Name: demo\<newline>'') ''Keywords'' = None"
    by code_simp
  have b2: "accepts plain_externals (chain_requires (parsestr ''Name: demo\<newline>''))"
    by code_simp
  from a1 a2 have a4: "\<exists>v. msg_get (parsestr ''Name: demo\<newline>Keywords: UNKNOWN\<newline>'') ''Keywords'' = Some v
      \<and> (strip v = [] \<or> strip v = ''UNKNOWN'')"
    by simp
  show ?thesis
    using a1 b1 keywords_default [OF disjI2 [OF a4] a3] keywords_default [OF disjI1 [OF b1] b2]
    by blast
qed

section \<open>Authors\<close>

text \<open>C4, as the claim states it, fails: the text with the fields \<^verbatim>\<open>Name: demo\<close> and
  \<^verbatim>\<open>Maintainer: Jane\<close> and no \<^verbatim>\<open>Author\<close> field gives a project with one author, Jane.\<close>

theorem maintainer_only_counterexample:
  "map_sum id authors (loads plain_externals ''Name: demo\<newline>Maintainer: Jane\<newline>'')
     = Inr [\<lparr>name = ''Jane'', mail = []\<rparr>]"
  by code_simp

text \<open>C4, amended. For every input text that has no \<^verbatim>\<open>Author\<close> field and a
  \<^verbatim>\<open>Maintainer\<close> field whose trimmed value is non-empty and not the sentinel, the resulting
  project has exactly one author: its name is the trimmed maintainer value and its mail is
  what \<^verbatim>\<open>_get\<close> reads under \<^verbatim>\<open>maintainer_email\<close>. The maintainer is added whenever its own
  field is non-empty, whether or not there is an author.\<close>

theorem maintainer_only:
  assumes "msg_get (parsestr content) ''author'' = None"
    and "msg_get (parsestr content) ''maintainer'' = Some v"
    and "strip v \<noteq> []" and "strip v \<noteq> ''UNKNOWN''"
    and "accepts ext (chain_requires (parsestr content))"
  shows "\<exists>root. parse_info ext content = Inr root
           \<and> authors root
               = [\<lparr>name = strip v, mail = egg_get (parsestr content) ''maintainer_email''\<rparr>]"
proof -
  have "egg_get (parsestr content) ''author'' = []"
    using assms(1) by (rule egg_get_absent)
  moreover have "egg_get (parsestr content) ''maintainer'' = strip v"
    using assms(2,4) by (rule egg_get_value)
  ultimately have "authors (info_root (parsestr content))
      = [\<lparr>name = strip v, mail = egg_get (parsestr content) ''maintainer_email''\<rparr>]"
    using assms(3) by (simp add: authors_info_root)
  with parse_info_accepts [OF assms(5)] show ?thesis
    by auto
qed

theorem maintainer_only_witness:
  "msg_get (parsestr ''Name: demo\<newline>Maintainer: Jane\<newline>'') ''author'' = None
   \<and> msg_get (parsestr ''Name: demo\<newline>Maintainer: Jane\<newline>'') ''maintainer'' = Some ''Jane''
   \<and> (\<exists>root. parse_info plain_externals ''Name: demo\<newline>Maintainer: Jane\<newline>'' = Inr root
         \<and> authors root = [\<lparr>name = ''Jane'', mail = []\<rparr>])"
proof -
  have a1: "msg_get (parsestr ''Name: demo\<newline>Maintainer: Jane\<newline>'') ''author'' = None"
    by code_simp
  have a2: "msg_get (parsestr ''Name: demo\<newline>Maintainer: Jane\<newline>'') ''maintainer'' = Some ''Jane''"
    by code_simp
  have a3: "strip ''Jane'' = ''Jane''"
    by code_simp
  have a4: "strip ''Jane'' \<noteq> []" "strip ''Jane'' \<noteq> ''UNKNOWN''"
    by (simp_all add: a3)
  have a5: "accepts plain_externals (chain_requires (parsestr ''Name: demo\<newline>Maintainer: Jane\<newline>''))"
    by code_simp
  have a6: "egg_get (parsestr ''Name: demo\<newline>Maintainer: Jane\<newline>'') ''maintainer_email'' = []"
    by code_simp
  show ?thesis
    using a1 a2 maintainer_only [OF a1 a2 a4 a5]
    by (simp add: a3 a6)
qed

section \<open>The requirement-list parse\<close>

lemma from_requirement_plain:
  "req_extras req = [] \<Longrightarrow>
     from_requirement root req
       = [\<lparr>dep_name = req_name req, dep_extras = [], dep_version = req_specifier req,
           dep_markers = req_marker req, dep_source = raw_name root\<rparr>]"
  by (simp add: from_requirement_def)

lemma collect_deps_plain:
  "map (PackagingRequirement ext) ts = map Some rs \<Longrightarrow> list_all (\<lambda>r. req_extras r = []) rs \<Longrightarrow>
     collect_deps ext root ts
       = Inr (map (\<lambda>req. \<lparr>dep_name = req_name req, dep_extras = [], dep_version = req_specifier req,
                           dep_markers = req_marker req, dep_source = raw_name root\<rparr>) rs)"
proof (induction ts arbitrary: rs)
  case Nil
  then show ?case by simp
next
  case (Cons t ts)
  then obtain r rs' where rs: "rs = r # rs'"
    by (cases rs) auto
  with Cons.prems have "PackagingRequirement ext t = Some r" "req_extras r = []"
    "map (PackagingRequirement ext) ts = map Some rs'" "list_all (\<lambda>r. req_extras r = []) rs'"
    by auto
  with Cons.IH [of rs'] rs show ?case
    by (simp add: from_requirement_plain)
qed

text \<open>C8. For every requirement-list text whose whitespace-separated tokens are all
  accepted by the requirement parser, as requirements with pairwise distinct names and
  without extras, the requirement-list parse returns a project that has exactly as many
  dependencies as the text has tokens, one for each token and in the order of the tokens.\<close>

theorem parse_requires_count:
  assumes "map (PackagingRequirement ext) (split content) = map Some rs"
    and "list_all (\<lambda>r. req_extras r = []) rs"
    and "distinct (map req_name rs)"
  shows "\<exists>root. parse_requires ext content None = Inr root
           \<and> length (dependencies root) = length (split content)
           \<and> map dep_name (dependencies root) = map req_name rs"
proof -
  let ?root = "RootDependency_init (get_name ext content)"
  let ?deps = "map (\<lambda>req. \<lparr>dep_name = req_name req, dep_extras = [], dep_version = req_specifier req,
                           dep_markers = req_marker req, dep_source = raw_name ?root\<rparr>) rs"
  have c: "collect_deps ext ?root (split content) = Inr ?deps"
    using assms(1,2) by (rule collect_deps_plain)
  have len: "length (split content) = length rs"
    using assms(1) by (metis length_map)
  have "parse_requires ext content None = Inr (?root\<lparr>dependencies := ?deps\<rparr>)"
    using c by (simp add: parse_requires_def attach_dependencies_def RootDependency_init_def)
  then show ?thesis
    using len by (simp add: comp_def)
qed

theorem parse_requires_count_witness:
  "map (PackagingRequirement plain_externals) (split ''six>=1.10\<newline>requests\<newline>'')
     = map Some [\<lparr>req_name = ''six'', req_extras = [], req_specifier = ''>=1.10'', req_marker = []\<rparr>,
                 \<lparr>req_name = ''requests'', req_extras = [], req_specifier = [], req_marker = []\<rparr>]
   \<and> (\<exists>root. parse_requires plain_externals ''six>=1.10\<newline>requests\<newline>'' None = Inr root
         \<and> length (dependencies root) = 2
         \<and> map dep_name (dependencies root) = [''six'', ''requests''])"
proof -
  have a1: "map (PackagingRequirement plain_externals) (split ''six>=1.10\<newline>requests\<newline>'')
     = map Some [\<lparr>req_name = ''six'', req_extras = [], req_specifier = ''>=1.10'', req_marker = []\<rparr>,
                 \<lparr>req_name = ''requests'', req_extras = [], req_specifier = [], req_marker = []\<rparr>]"
    by code_simp
  have a2: "list_all (\<lambda>r. req_extras r = [])
      [\<lparr>req_name = ''six'', req_extras = [], req_specifier = ''>=1.10'', req_marker = []\<rparr>,
       \<lparr>req_name = ''requests'', req_extras = [], req_specifier = [], req_marker = []\<rparr>]"
    by simp
  have a3: "distinct (map req_name
      [\<lparr>req_name = ''six'', req_extras = [], req_specifier = ''>=1.10'', req_marker = []\<rparr>,
       \<lparr>req_name = ''requests'', req_extras = [], req_specifier = [], req_marker = []\<rparr>])"
    by simp
  have a4: "length (split ''six>=1.10\<newline>requests\<newline>'') = 2"
    by code_simp
  show ?thesis
    using a1 parse_requires_count [OF a1 a2 a3] by (simp add: a4)
qed

section \<open>Merging requires.txt into the project of PKG-INFO\<close>

lemma parse_requires_Some:
  "collect_deps ext r0 (split content) = Inr deps \<Longrightarrow>
     parse_requires ext content (Some r0)
       = Inr (r0\<lparr>dependencies := dependencies r0 @ deps\<rparr>)"
  by (simp add: parse_requires_def attach_dependencies_def)

lemma chain_requires_absent:
  "msg_get_all info ''Requires'' = None \<Longrightarrow> msg_get_all info ''Requires-Dist'' = None \<Longrightarrow>
     chain_requires info = []"
  by (simp add: chain_requires_def egg_get_list_absent)

lemma parse_info_no_requires:
  "chain_requires (parsestr content) = [] \<Longrightarrow>
     parse_info ext content = Inr (info_root (parsestr content))"
  by (simp add: parse_info_def Let_def attach_dependencies_def dependencies_info_root)

lemma from_requirement_source:
  "from_requirement root' req
     = map (\<lambda>d. d\<lparr>dep_source := raw_name root'\<rparr>) (from_requirement root req)"
  by (simp add: from_requirement_def Let_def comp_def)

lemma collect_deps_source:
  "collect_deps ext root ts = Inr ds \<Longrightarrow>
     collect_deps ext root' ts = Inr (map (\<lambda>d. d\<lparr>dep_source := raw_name root'\<rparr>) ds)"
proof (induction ts arbitrary: ds)
  case Nil
  then show ?case by simp
next
  case (Cons t ts)
  from Cons.prems obtain req ds' where r: "PackagingRequirement ext t = Some req"
    and c: "collect_deps ext root ts = Inr ds'" and d: "ds = from_requirement root req @ ds'"
    by (auto split: option.splits sum.splits)
  from Cons.IH [OF c]
  have "collect_deps ext root' ts = Inr (map (\<lambda>d. d\<lparr>dep_source := raw_name root'\<rparr>) ds')" .
  with r d show ?case
    by (simp add: from_requirement_source [of root' req root])
qed

text \<open>C3. For \<^verbatim>\<open>_load_dir\<close> given exactly one candidate directory whose \<^verbatim>\<open>PKG-INFO\<close> has
  neither \<^verbatim>\<open>Requires\<close> nor \<^verbatim>\<open>Requires-Dist\<close> fields and whose \<^verbatim>\<open>requires.txt\<close> holds only
  tokens the requirement parser accepts: the call returns a project whose dependencies
  are exactly those parsed from \<^verbatim>\<open>requires.txt\<close>, that is the dependencies the loop of
  \<^verbatim>\<open>_parse_requires\<close> builds from all its tokens, in order and none left out, which are the
  dependencies of the requirement-list parse of \<^verbatim>\<open>requires.txt\<close> on its own, referring back
  to this project; name, version, description, license, keywords, classifiers,
  platforms, links and authors are those of the project parsed from \<^verbatim>\<open>PKG-INFO\<close>.\<close>

theorem load_dir_requires_txt:
  assumes "fs (p @ [''PKG-INFO'']) = Some info_txt"
    and "fs (p @ [''requires.txt'']) = Some req_txt"
    and "msg_get_all (parsestr info_txt) ''Requires'' = None"
    and "msg_get_all (parsestr info_txt) ''Requires-Dist'' = None"
    and "accepts ext (split req_txt)"
  shows "\<exists>r0 r1 root.
           parse_info ext info_txt = Inr r0
           \<and> parse_requires ext req_txt None = Inr r1
           \<and> load_dir ext fs [p] = Inr root
           \<and> dependencies root = map (\<lambda>d. d\<lparr>dep_source := raw_name r0\<rparr>) (dependencies r1)
           \<and> collect_deps ext r0 (split req_txt) = Inr (dependencies root)
           \<and> raw_name root = raw_name r0 \<and> version root = version r0
           \<and> description root = description r0 \<and> license root = license r0
           \<and> keywords' root = keywords' r0 \<and> classifiers root = classifiers r0
           \<and> platforms root = platforms r0 \<and> links root = links r0
           \<and> authors root = authors r0"
proof -
  let ?r0 = "info_root (parsestr info_txt)"
  let ?ri = "RootDependency_init (get_name ext req_txt)"
  have p: "parse_info ext info_txt = Inr ?r0"
    using assms(3,4) by (simp add: parse_info_no_requires chain_requires_absent)
  obtain d1 where c1: "collect_deps ext ?ri (split req_txt) = Inr d1"
    using collect_deps_accepts [OF assms(5)] by blast
  let ?d0 = "map (\<lambda>d. d\<lparr>dep_source := raw_name ?r0\<rparr>) d1"
  have c0: "collect_deps ext ?r0 (split req_txt) = Inr ?d0"
    using c1 by (rule collect_deps_source)
  have q1: "parse_requires ext req_txt None = Inr (?ri\<lparr>dependencies := d1\<rparr>)"
    using c1 by (simp add: parse_requires_def attach_dependencies_def RootDependency_init_def)
  have q0: "parse_requires ext req_txt (Some ?r0) = Inr (?r0\<lparr>dependencies := ?d0\<rparr>)"
    using parse_requires_Some [OF c0] by (simp add: dependencies_info_root)
  have l: "load_dir ext fs [p] = Inr (?r0\<lparr>dependencies := ?d0\<rparr>)"
    using assms(1,2) p q0 by (simp add: load_dir_def open_read_def dependencies_info_root)
  show ?thesis
    apply (rule exI [of _ ?r0])
    apply (rule exI [of _ "?ri\<lparr>dependencies := d1\<rparr>"])
    apply (rule exI [of _ "?r0\<lparr>dependencies := ?d0\<rparr>"])
    apply (simp add: p q1 l c0)
    done
qed

theorem load_dir_requires_txt_witness:
  "\<exists>root. load_dir plain_externals
       [[''d'', ''PKG-INFO''] \<mapsto> ''Name: a\<newline>'', [''d'', ''requires.txt''] \<mapsto> ''b>=1 b c'']
       [[''d'']] = Inr root
     \<and> map dep_name (dependencies root) = [''b'', ''b'', ''c'']
     \<and> raw_name root = ''a''"
proof -
  let ?fs = "[[''d'', ''PKG-INFO''] \<mapsto> ''Name: a\<newline>'', [''d'', ''requires.txt''] \<mapsto> ''b>=1 b c'']"
  have a1: "?fs ([''d''] @ [''PKG-INFO'']) = Some ''Name: a\<newline>''"
    by simp
  have a2: "?fs ([''d''] @ [''requires.txt'']) = Some ''b>=1 b c''"
    by simp
  have a3: "msg_get_all (parsestr ''Name: a\<newline>'') ''Requires'' = None"
    by code_simp
  have a4: "msg_get_all (parsestr ''Name: a\<newline>'') ''Requires-Dist'' = None"
    by code_simp
  have a5: "accepts plain_externals (split ''b>=1 b c'')"
    by code_simp
  have b1: "map_sum id raw_name (parse_info plain_externals ''Name: a\<newline>'') = Inr ''a''"
    by code_simp
  have b4: "map_sum id (\<lambda>r. map_sum id (map dep_name)
        (collect_deps plain_externals r (split ''b>=1 b c'')))
      (parse_info plain_externals ''Name: a\<newline>'') = Inr (Inr [''b'', ''b'', ''c''])"
    by code_simp
  from load_dir_requires_txt [OF a1 a2 a3 a4 a5] obtain r0 r1 root where
    h: "parse_info plain_externals ''Name: a\<newline>'' = Inr r0"
       "load_dir plain_externals ?fs [[''d'']] = Inr root"
       "collect_deps plain_externals r0 (split ''b>=1 b c'') = Inr (dependencies root)"
       "raw_name root = raw_name r0"
    by blast
  from h b1 b4 show ?thesis
    by simp
qed

section \<open>The sentinel\<close>

lemma is_sentinel_egg_get: "is_sentinel info nm \<Longrightarrow> egg_get info nm = []"
  by (auto simp: is_sentinel_def egg_get_sentinel split: option.splits)

lemma egg_get_list_field_values:
  "egg_get_list info nm = map strip (filter (\<lambda>v. strip v \<noteq> ''UNKNOWN'') (field_values info nm))"
  by (simp add: egg_get_list_eq field_values_def)

lemma chain_requires_not_sentinel: "''UNKNOWN'' \<notin> set (chain_requires info)"
  using egg_get_list_not_sentinel [of info "''Requires''"]
    egg_get_list_not_sentinel [of info "''Requires-Dist''"]
  by (simp add: chain_requires_def)

lemma links_info_root_not_sentinel: "links (info_root info) key \<noteq> Some ''UNKNOWN''"
  using egg_get_not_sentinel [of info "''Project-URL''"] egg_get_not_sentinel [of info "''Download-URL''"]
    egg_get_not_sentinel [of info "''Home-Page''"]
  by (simp add: links_info_root)

lemma authors_info_root_not_sentinel:
  "a \<in> set (authors (info_root info)) \<Longrightarrow> name a \<noteq> ''UNKNOWN'' \<and> mail a \<noteq> ''UNKNOWN''"
  using egg_get_not_sentinel [of info "''author''"] egg_get_not_sentinel [of info "''author_email''"]
    egg_get_not_sentinel [of info "''maintainer''"] egg_get_not_sentinel [of info "''maintainer_email''"]
  by (auto simp: authors_info_root split: if_splits)

text \<open>C6, as the claim states it, fails: in the text with the fields \<^verbatim>\<open>Name: demo\<close> and
  \<^verbatim>\<open>Version: UNKNOWN\<close> the value of \<^verbatim>\<open>Version\<close> is literally the sentinel, and the version
  of the resulting project is \<^verbatim>\<open>0.0.0\<close>, not the empty string.\<close>

theorem sentinel_counterexample:
  "map_sum id version (loads plain_externals ''Name: demo\<newline>Version: UNKNOWN\<newline>'')
     = Inr ''0.0.0''"
  by code_simp

text \<open>C6, amended. For every input text, where the value of a recognised field is the
  sentinel \<^verbatim>\<open>UNKNOWN\<close> after trimming, the resulting project has: the empty string as
  name, description or license and as the mail of the author or maintainer; the default
  \<^verbatim>\<open>0.0.0\<close> as version; the one-element sequence of the empty string as keywords; no entry
  for that link; no author entry for that author or maintainer. The values of the
  repeated fields (\<^verbatim>\<open>Classifier\<close>, \<^verbatim>\<open>Platform\<close>, \<^verbatim>\<open>Requires\<close>, \<^verbatim>\<open>Requires-Dist\<close>) are taken
  trimmed, those equal to the sentinel left out. The sentinel is never stored as name,
  version, description or license, nor among the classifiers and platforms, nor as a
  link, nor as the name or mail of an author.\<close>

theorem sentinel_normalised:
  assumes "info = parsestr content"
    and "accepts ext (chain_requires info)"
  shows "\<exists>root. parse_info ext content = Inr root
    \<and> (is_sentinel info ''Name'' \<longrightarrow> raw_name root = [])
    \<and> (is_sentinel info ''Version'' \<longrightarrow> version root = ''0.0.0'')
    \<and> (is_sentinel info ''Summary'' \<longrightarrow> description root = [])
    \<and> (is_sentinel info ''License'' \<longrightarrow> license root = [])
    \<and> (is_sentinel info ''Keywords'' \<longrightarrow> keywords' root = [[]])
    \<and> (is_sentinel info ''Home-Page'' \<longrightarrow> links root ''home'' = None)
    \<and> (is_sentinel info ''Download-URL'' \<longrightarrow> links root ''download'' = None)
    \<and> (is_sentinel info ''Project-URL'' \<longrightarrow> links root ''project'' = None)
    \<and> (is_sentinel info ''author'' \<longrightarrow>
          authors root = (if egg_get info ''maintainer'' = [] then []
                          else [\<lparr>name = egg_get info ''maintainer'',
                                 mail = egg_get info ''maintainer_email''\<rparr>]))
    \<and> (is_sentinel info ''maintainer'' \<longrightarrow>
          authors root = (if egg_get info ''author'' = [] then []
                          else [\<lparr>name = egg_get info ''author'',
                                 mail = egg_get info ''author_email''\<rparr>]))
    \<and> (is_sentinel info ''author_email'' \<and> egg_get info ''author'' \<noteq> [] \<longrightarrow>
          mail (hd (authors root)) = [])
    \<and> (is_sentinel info ''maintainer_email'' \<and> egg_get info ''maintainer'' \<noteq> [] \<longrightarrow>
          mail (last (authors root)) = [])
    \<and> classifiers root
        = map strip (filter (\<lambda>v. strip v \<noteq> ''UNKNOWN'') (field_values info ''Classifier''))
    \<and> platforms root
        = map strip (filter (\<lambda>v. strip v \<noteq> ''UNKNOWN'') (field_values info ''Platform''))
    \<and> chain_requires info
        = map strip (filter (\<lambda>v. strip v \<noteq> ''UNKNOWN'') (field_values info ''Requires''))
          @ map strip (filter (\<lambda>v. strip v \<noteq> ''UNKNOWN'') (field_values info ''Requires-Dist''))
    \<and> raw_name root \<noteq> ''UNKNOWN'' \<and> version root \<noteq> ''UNKNOWN''
    \<and> description root \<noteq> ''UNKNOWN'' \<and> license root \<noteq> ''UNKNOWN''
    \<and> ''UNKNOWN'' \<notin> set (classifiers root) \<and> ''UNKNOWN'' \<notin> set (platforms root)
    \<and> (\<forall>key. links root key \<noteq> Some ''UNKNOWN'')
    \<and> (\<forall>a \<in> set (authors root). name a \<noteq> ''UNKNOWN'' \<and> mail a \<noteq> ''UNKNOWN'')"
proof -
  obtain deps where p: "parse_info ext content
      = Inr ((info_root info)\<lparr>dependencies := deps\<rparr>)"
    using parse_info_accepts [of ext content] assms by blast
  let ?r = "(info_root info)\<lparr>dependencies := deps\<rparr>"
  have c1: "is_sentinel info ''Name'' \<longrightarrow> raw_name ?r = []"
    by (simp add: raw_name_info_root is_sentinel_egg_get)
  have c2: "is_sentinel info ''Version'' \<longrightarrow> version ?r = ''0.0.0''"
    by (simp add: version_info_root is_sentinel_egg_get)
  have c3: "is_sentinel info ''Summary'' \<longrightarrow> description ?r = []"
    by (simp add: description_info_root is_sentinel_egg_get)
  have c4: "is_sentinel info ''License'' \<longrightarrow> license ?r = []"
    by (simp add: license_info_root is_sentinel_egg_get)
  have c5: "is_sentinel info ''Keywords'' \<longrightarrow> keywords' ?r = [[]]"
    by (simp add: keywords_info_root is_sentinel_egg_get)
  have c6: "is_sentinel info ''Home-Page'' \<longrightarrow> links ?r ''home'' = None"
    by (simp add: links_info_root is_sentinel_egg_get)
  have c7: "is_sentinel info ''Download-URL'' \<longrightarrow> links ?r ''download'' = None"
    by (simp add: links_info_root is_sentinel_egg_get)
  have c8: "is_sentinel info ''Project-URL'' \<longrightarrow> links ?r ''project'' = None"
    by (simp add: links_info_root is_sentinel_egg_get)
  have c9: "is_sentinel info ''author'' \<longrightarrow>
      authors ?r = (if egg_get info ''maintainer'' = [] then []
                    else [\<lparr>name = egg_get info ''maintainer'',
                           mail = egg_get info ''maintainer_email''\<rparr>])"
    by (simp add: authors_info_root is_sentinel_egg_get)
  have c10: "is_sentinel info ''maintainer'' \<longrightarrow>
      authors ?r = (if egg_get info ''author'' = [] then []
                    else [\<lparr>name = egg_get info ''author'',
                           mail = egg_get info ''author_email''\<rparr>])"
    by (simp add: authors_info_root is_sentinel_egg_get)
  have c11: "is_sentinel info ''author_email'' \<and> egg_get info ''author'' \<noteq> [] \<longrightarrow>
      mail (hd (authors ?r)) = []"
    by (simp add: authors_info_root is_sentinel_egg_get)
  have c12: "is_sentinel info ''maintainer_email'' \<and> egg_get info ''maintainer'' \<noteq> [] \<longrightarrow>
      mail (last (authors ?r)) = []"
    by (simp add: authors_info_root is_sentinel_egg_get)
  have c13: "classifiers ?r
      = map strip (filter (\<lambda>v. strip v \<noteq> ''UNKNOWN'') (field_values info ''Classifier''))"
    by (simp add: classifiers_info_root egg_get_list_field_values)
  have c14: "platforms ?r
      = map strip (filter (\<lambda>v. strip v \<noteq> ''UNKNOWN'') (field_values info ''Platform''))"
    by (simp add: platforms_info_root egg_get_list_field_values)
  have c15: "chain_requires info
      = map strip (filter (\<lambda>v. strip v \<noteq> ''UNKNOWN'') (field_values info ''Requires''))
        @ map strip (filter (\<lambda>v. strip v \<noteq> ''UNKNOWN'') (field_values info ''Requires-Dist''))"
    by (simp add: chain_requires_def egg_get_list_field_values)
  have c16: "raw_name ?r \<noteq> ''UNKNOWN''"
    by (simp add: raw_name_info_root egg_get_not_sentinel)
  have c17: "version ?r \<noteq> ''UNKNOWN''"
    using egg_get_not_sentinel [of info "''Version''"] by (simp add: version_info_root)
  have c18: "description ?r \<noteq> ''UNKNOWN''"
    by (simp add: description_info_root egg_get_not_sentinel)
  have c19: "license ?r \<noteq> ''UNKNOWN''"
    by (simp add: license_info_root egg_get_not_sentinel)
  have c20: "''UNKNOWN'' \<notin> set (classifiers ?r)"
    using egg_get_list_not_sentinel [of info "''Classifier''"] by (simp add: classifiers_info_root)
  have c21: "''UNKNOWN'' \<notin> set (platforms ?r)"
    using egg_get_list_not_sentinel [of info "''Platform''"] by (simp add: platforms_info_root)
  have c22: "\<forall>key. links ?r key \<noteq> Some ''UNKNOWN''"
    using links_info_root_not_sentinel [of info] by simp
  have c23: "\<forall>a \<in> set (authors ?r). name a \<noteq> ''UNKNOWN'' \<and> mail a \<noteq> ''UNKNOWN''"
    using authors_info_root_not_sentinel [of _ info] by simp
  show ?thesis
    using p c1 c2 c3 c4 c5 c6 c7 c8 c9 c10 c11 c12 c13 c14 c15 c16 c17 c18 c19 c20 c21 c22 c23
    by (intro exI [of _ ?r] conjI) assumption+
qed

theorem sentinel_normalised_witness:
  "is_sentinel (parsestr ''Version: UNKNOWN\<newline>License:  UNKNOWN \<newline>'') ''Version''
   \<and> is_sentinel (parsestr ''Version: UNKNOWN\<newline>License:  UNKNOWN \<newline>'') ''License''
   \<and> (\<exists>root. parse_info plain_externals ''Version: UNKNOWN\<newline>License:  UNKNOWN \<newline>'' = Inr root
         \<and> version root = ''0.0.0'' \<and> license root = [])"
proof -
  let ?t = "''Version: UNKNOWN\<newline>License:  UNKNOWN \<newline>''"
  have a1: "is_sentinel (parsestr ?t) ''Version''"
    by code_simp
  have a2: "is_sentinel (parsestr ?t) ''License''"
    by code_simp
  have a3: "accepts plain_externals (chain_requires (parsestr ?t))"
    by code_simp
  show ?thesis
    using a1 a2 sentinel_normalised [OF refl a3] by blast
qed

section \<open>The header parser on a header-form text\<close>

lemma ftext_not_special:
  "ftext c \<Longrightarrow> c \<noteq> CR \<and> c \<noteq> LF \<and> c \<noteq> SP \<and> c \<noteq> TAB \<and> c \<noteq> CHR '':''"
  by (auto simp: ftext_def CR_def LF_def SP_def TAB_def Let_def)

lemma readlines_from_LF:
  "readlines_from cur (LF # rest) = (cur @ [LF]) # readlines_from [] rest"
  by (cases rest) simp_all

lemma readlines_from_plain:
  "c \<noteq> LF \<Longrightarrow> c \<noteq> CR \<Longrightarrow> rest \<noteq> [] \<Longrightarrow>
     readlines_from cur (c # rest) = readlines_from (cur @ [c]) rest"
  by (cases rest) simp_all

lemma readlines_from_line:
  "list_all (\<lambda>c. c \<noteq> CR \<and> c \<noteq> LF) s \<Longrightarrow>
     readlines_from cur (s @ LF # rest) = (cur @ s @ [LF]) # readlines_from [] rest"
proof (induction s arbitrary: cur)
  case Nil
  then show ?case by (simp add: readlines_from_LF)
next
  case (Cons c s)
  then have "readlines_from cur (c # (s @ LF # rest)) = readlines_from (cur @ [c]) (s @ LF # rest)"
    by (intro readlines_from_plain) auto
  with Cons show ?case by simp
qed

lemma header_text_Cons:
  "header_text (kv # hs) = (fst kv @ '': '' @ snd kv) @ LF # header_text hs"
  by (simp add: header_text_def header_line_def)

lemma wf_field_no_line_end:
  "wf_field kv \<Longrightarrow> list_all (\<lambda>c. c \<noteq> CR \<and> c \<noteq> LF) (fst kv @ '': '' @ snd kv)"
  using ftext_not_special
  by (auto simp: wf_field_def list_all_iff CR_def LF_def)

lemma readlines_header_text:
  "list_all wf_field hs \<Longrightarrow>
     readlines (header_text hs @ body)
       = map (\<lambda>kv. header_line (fst kv) (snd kv)) hs @ readlines body"
proof (induction hs)
  case Nil
  then show ?case by (simp add: header_text_def)
next
  case (Cons kv hs)
  from Cons.prems have "wf_field kv"
    by simp
  then have "list_all (\<lambda>c. c \<noteq> CR \<and> c \<noteq> LF) (fst kv @ '': '' @ snd kv)"
    by (rule wf_field_no_line_end)
  then have "readlines_from [] ((fst kv @ '': '' @ snd kv) @ LF # (header_text hs @ body))
      = ([] @ (fst kv @ '': '' @ snd kv) @ [LF]) # readlines_from [] (header_text hs @ body)"
    by (rule readlines_from_line)
  with Cons show ?case
    by (simp add: readlines_def header_text_Cons header_line_def)
qed

lemma dropWhile_all: "(\<And>x. x \<in> set xs \<Longrightarrow> P x) \<Longrightarrow> dropWhile P (xs @ ys) = dropWhile P ys"
  by (induction xs) auto

lemma takeWhile_all_stop:
  "(\<And>x. x \<in> set xs \<Longrightarrow> P x) \<Longrightarrow> \<not> P y \<Longrightarrow> takeWhile P (xs @ y # ys) = xs"
  by (induction xs) auto

lemma dropWhile_none: "(\<And>x. x \<in> set xs \<Longrightarrow> \<not> P x) \<Longrightarrow> dropWhile P xs = xs"
  by (cases xs) auto

lemma dropWhile_snoc_stop: "\<not> P y \<Longrightarrow> dropWhile P (xs @ [y]) = dropWhile P xs @ [y]"
  by (induction xs) auto

lemma dropWhile_weaker:
  "(\<And>x. Q x \<Longrightarrow> P x) \<Longrightarrow> dropWhile P (dropWhile Q xs) = dropWhile P xs"
  by (induction xs) auto

lemma headerRE_match_header_line:
  assumes "wf_field (k, v)"
  shows "headerRE_match (header_line k v)"
proof -
  have "\<not> ftext (CHR '':'')"
    by (simp add: ftext_def)
  moreover have "\<And>x. x \<in> set k \<Longrightarrow> ftext x"
    using assms by (simp add: wf_field_def list_all_iff)
  ultimately have "dropWhile ftext (k @ CHR '':'' # CHR '' '' # v @ [LF]) = CHR '':'' # CHR '' '' # v @ [LF]"
    by (simp add: dropWhile_all)
  then show ?thesis
    by (simp add: headerRE_match_def header_line_def)
qed

lemma NLCRE_not_header: "NLCRE_match l \<Longrightarrow> \<not> headerRE_match l"
  by (cases l)
    (auto simp: NLCRE_match_def headerRE_match_def startswith_def ftext_def LF_def CR_def
      TAB_def SP_def)

lemma readlines_body_start:
  "NLCRE_match body \<Longrightarrow> \<exists>l ls. readlines body = l # ls \<and> NLCRE_match l"
proof (cases body)
  case Nil
  assume "NLCRE_match body"
  with Nil show ?thesis by (simp add: NLCRE_match_def)
next
  case (Cons c rest)
  assume "NLCRE_match body"
  with Cons show ?thesis
    by (cases rest) (auto simp: NLCRE_match_def readlines_def)
qed

lemma header_lines_of_text:
  assumes "list_all wf_field hs" and "wf_body body"
  shows "takeWhile headerRE_match (readlines (header_text hs @ body))
           = map (\<lambda>kv. header_line (fst kv) (snd kv)) hs"
proof -
  have t: "takeWhile headerRE_match (readlines body) = []"
  proof (cases "body = []")
    case True
    then show ?thesis by (simp add: readlines_def)
  next
    case False
    with assms(2) have "NLCRE_match body"
      by (simp add: wf_body_def)
    then obtain l ls where "readlines body = l # ls" "NLCRE_match l"
      using readlines_body_start by blast
    then show ?thesis
      by (simp add: NLCRE_not_header)
  qed
  have "takeWhile headerRE_match
      (map (\<lambda>kv. header_line (fst kv) (snd kv)) hs @ readlines body)
      = map (\<lambda>kv. header_line (fst kv) (snd kv)) hs @ takeWhile headerRE_match (readlines body)"
    by (rule takeWhile_append2)
      (use assms(1) headerRE_match_header_line in \<open>auto simp: list_all_iff\<close>)
  with t show ?thesis
    by (simp add: readlines_header_text [OF assms(1)])
qed

lemma header_line_name:
  assumes "wf_field (k, v)"
  shows "takeWhile (\<lambda>c. c \<noteq> CHR '':'') (header_line k v) = k"
proof -
  have "\<And>x. x \<in> set k \<Longrightarrow> x \<noteq> CHR '':''"
    using assms ftext_not_special by (auto simp: wf_field_def list_all_iff)
  then have "takeWhile (\<lambda>c. c \<noteq> CHR '':'') (k @ CHR '':'' # CHR '' '' # v @ [LF]) = k"
    by (intro takeWhile_all_stop) auto
  then show ?thesis
    by (simp add: header_line_def)
qed

lemma header_line_rest:
  assumes "wf_field (k, v)"
  shows "dropWhile (\<lambda>c. c \<noteq> CHR '':'') (header_line k v) = CHR '':'' # CHR '' '' # v @ [LF]"
proof -
  have "\<And>x. x \<in> set k \<Longrightarrow> x \<noteq> CHR '':''"
    using assms ftext_not_special by (auto simp: wf_field_def list_all_iff)
  then have "dropWhile (\<lambda>c. c \<noteq> CHR '':'') (k @ CHR '':'' # CHR '' '' # v @ [LF])
      = dropWhile (\<lambda>c. c \<noteq> CHR '':'') (CHR '':'' # CHR '' '' # v @ [LF])"
    by (intro dropWhile_all) auto
  then show ?thesis
    by (simp add: header_line_def)
qed

lemma header_source_parse_line:
  assumes "wf_field (k, v)"
  shows "header_source_parse [header_line k v] = (k, lstrip (\<lambda>c. c = SP \<or> c = TAB) v)"
proof -
  let ?w = "dropWhile (\<lambda>c. c = SP \<or> c = TAB) v"
  have nl: "\<And>x. x \<in> set v \<Longrightarrow> \<not> (x = CR \<or> x = LF)"
    using assms by (auto simp: wf_field_def list_all_iff)
  have "dropWhile (\<lambda>c. c = SP \<or> c = TAB) (v @ [LF]) = ?w @ [LF]"
    by (intro dropWhile_snoc_stop) (simp add: LF_def SP_def TAB_def)
  then have l: "lstrip (\<lambda>c. c = SP \<or> c = TAB) (CHR '' '' # v @ [LF]) = ?w @ [LF]"
    by (simp add: lstrip_def SP_def)
  have "\<And>x. x \<in> set (rev ?w) \<Longrightarrow> \<not> (x = CR \<or> x = LF)"
    using nl set_dropWhileD by fastforce
  then have "dropWhile (\<lambda>c. c = CR \<or> c = LF) (rev ?w) = rev ?w"
    by (rule dropWhile_none)
  then have r: "rstrip (\<lambda>c. c = CR \<or> c = LF) (?w @ [LF]) = ?w"
    by (simp add: rstrip_def)
  show ?thesis
    using l r
    by (simp add: header_source_parse_def header_line_name [OF assms] header_line_rest [OF assms]
        lstrip_def)
qed

lemma header_line_not_continuation:
  assumes "wf_field (k, v)"
  shows "\<not> startswith (header_line k v) [SP]" and "\<not> startswith (header_line k v) [TAB]"
proof -
  from assms obtain c cs where k: "k = c # cs" and "ftext c"
    by (cases k) (auto simp: wf_field_def)
  then have "c \<noteq> SP" "c \<noteq> TAB"
    using ftext_not_special by auto
  with k show "\<not> startswith (header_line k v) [SP]" "\<not> startswith (header_line k v) [TAB]"
    by (simp_all add: startswith_def header_line_def)
qed

lemma header_line_not_From:
  assumes "wf_field (k, v)"
  shows "\<not> startswith (header_line k v) ''From ''"
proof
  assume "startswith (header_line k v) ''From ''"
  then have t: "take (length ''From '') (header_line k v) = ''From ''"
    unfolding startswith_def .
  then have e: "header_line k v = ''From '' @ drop (length ''From '') (header_line k v)"
    by (metis append_take_drop_id)
  have "takeWhile ftext (''From '' @ drop (length ''From '') (header_line k v)) = ''From''"
    by (simp add: ftext_def)
  with e have "takeWhile ftext (header_line k v) = ''From''"
    by metis
  moreover have "takeWhile ftext (k @ CHR '':'' # CHR '' '' # v @ [LF]) = k"
    using assms by (intro takeWhile_all_stop) (auto simp: wf_field_def list_all_iff ftext_def)
  ultimately have "k = ''From''"
    by (simp add: header_line_def)
  with t show False
    by (simp add: header_line_def)
qed

lemma parse_headers_from_lines:
  "list_all wf_field hs \<Longrightarrow>
     parse_headers_from lineno n lastheader lastvalue (map (\<lambda>kv. header_line (fst kv) (snd kv)) hs)
       = (if lastheader \<noteq> [] then [header_source_parse lastvalue] else [])
         @ map (\<lambda>kv. (fst kv, lstrip (\<lambda>c. c = SP \<or> c = TAB) (snd kv))) hs"
proof (induction hs arbitrary: lineno lastheader lastvalue)
  case Nil
  then show ?case by simp
next
  case (Cons kv hs)
  obtain k v where kv: "kv = (k, v)"
    by (cases kv)
  with Cons.prems have wf: "wf_field (k, v)" and rest: "list_all wf_field hs"
    by simp_all
  have k: "k \<noteq> []"
    using wf by (simp add: wf_field_def)
  have step: "parse_headers_from (Suc lineno) n k [header_line k v]
        (map (\<lambda>kv. header_line (fst kv) (snd kv)) hs)
      = (k, lstrip (\<lambda>c. c = SP \<or> c = TAB) v)
        # map (\<lambda>kv. (fst kv, lstrip (\<lambda>c. c = SP \<or> c = TAB) (snd kv))) hs"
    using Cons.IH [OF rest, of "Suc lineno" k "[header_line k v]"] k
    by (simp add: header_source_parse_line [OF wf])
  have name: "takeWhile (\<lambda>c. c \<noteq> CHR '':'') (header_line k v) = k"
    by (rule header_line_name [OF wf])
  have tk: "take (length k) (header_line k v) = k"
    by (simp add: header_line_def)
  show ?case
    using k step header_line_not_continuation [OF wf] header_line_not_From [OF wf]
    by (simp add: kv name tk Let_def)
qed

lemma parsestr_header_text:
  assumes "list_all wf_field hs" and "wf_body body"
  shows "parsestr (header_text hs @ body)
           = map (\<lambda>kv. (fst kv, lstrip (\<lambda>c. c = SP \<or> c = TAB) (snd kv))) hs"
  using parse_headers_from_lines [OF assms(1), of 0 _ "[]" "[]"]
  by (simp add: parsestr_def parse_headers_def header_lines_of_text [OF assms])

lemma strip_lstrip_blank: "strip (lstrip (\<lambda>c. c = SP \<or> c = TAB) v) = strip v"
proof -
  have "dropWhile isspace (dropWhile (\<lambda>c. c = SP \<or> c = TAB) v) = dropWhile isspace v"
    by (rule dropWhile_weaker) (auto simp: isspace_def SP_def TAB_def)
  then show ?thesis
    by (simp add: strip_def lstrip_def)
qed

lemma lstrip_Nil: "lstrip p [] = []"
  by (simp add: lstrip_def)

lemma msg_get_map_value:
  "msg_get (map (\<lambda>kv. (fst kv, f (snd kv))) hs) nm = map_option f (msg_get hs nm)"
  by (induction hs) auto

lemma egg_get_raw:
  "egg_get (map (\<lambda>kv. (fst kv, lstrip (\<lambda>c. c = SP \<or> c = TAB) (snd kv))) hs) nm = egg_get hs nm"
proof (cases "msg_get hs nm")
  case None
  then show ?thesis
    by (simp add: egg_get_def msg_get_map_value)
next
  case (Some v)
  show ?thesis
  proof (cases "lstrip (\<lambda>c. c = SP \<or> c = TAB) v = []")
    case True
    then have "strip v = []"
      using strip_lstrip_blank [of v] by (simp add: strip_Nil)
    with Some True show ?thesis
      by (simp add: egg_get_def msg_get_map_value Let_def)
  next
    case False
    then have "v \<noteq> []"
      by (auto simp: lstrip_Nil)
    with Some False show ?thesis
      by (simp add: egg_get_def msg_get_map_value Let_def strip_lstrip_blank)
  qed
qed

lemma egg_get_list_raw:
  "egg_get_list (map (\<lambda>kv. (fst kv, lstrip (\<lambda>c. c = SP \<or> c = TAB) (snd kv))) hs) nm
     = egg_get_list hs nm"
  by (induction hs) (auto simp: egg_get_list_eq strip_lstrip_blank)

lemma chain_requires_raw:
  "chain_requires (map (\<lambda>kv. (fst kv, lstrip (\<lambda>c. c = SP \<or> c = TAB) (snd kv))) hs)
     = chain_requires hs"
  by (simp add: chain_requires_def egg_get_list_raw)

lemma msg_get_unique:
  "(k, v) \<in> set hs \<Longrightarrow> lower k = lower nm \<Longrightarrow>
     \<forall>kv \<in> set hs. lower (fst kv) = lower nm \<longrightarrow> snd kv = v \<Longrightarrow>
     msg_get hs nm = Some v"
  by (induction hs) auto

lemma contains_here: "contains (sub @ b) sub"
proof (cases "sub @ b")
  case Nil
  then show ?thesis by simp
next
  case (Cons c cs)
  have "take (length sub) (sub @ b) = sub"
    by simp
  with Cons show ?thesis
    by (simp del: take_Cons')
qed

lemma contains_append: "contains (a @ sub @ b) sub"
  by (induction a) (auto simp: contains_here)

lemma header_text_append: "header_text (a @ b) = header_text a @ header_text b"
  by (simp add: header_text_def)

lemma contains_field_line:
  assumes "(''Name'', x) \<in> set hs"
  shows "contains (header_text hs @ body) ''Name: ''"
proof -
  from assms obtain hs1 hs2 where "hs = hs1 @ (''Name'', x) # hs2"
    by (meson split_list)
  then have "header_text hs @ body
      = header_text hs1 @ ''Name: '' @ (x @ [LF] @ header_text hs2 @ body)"
    by (simp add: header_text_append header_text_Cons)
  then show ?thesis
    by (simp only: contains_append)
qed

section \<open>Name and version of a header-form text\<close>

text \<open>A text made of well-formed field lines, with \<^verbatim>\<open>Name: X\<close> and \<^verbatim>\<open>Version: Y\<close> as its only
  name and version fields, is routed to the header-form parse and gives a project with
  that name and version.\<close>

lemma loads_field_lines:
  assumes "list_all wf_field hs" and "wf_body body"
    and "(''Name'', X) \<in> set hs" and "(''Version'', Y) \<in> set hs"
    and "\<forall>kv \<in> set hs. lower (fst kv) = ''name'' \<longrightarrow> snd kv = X"
    and "\<forall>kv \<in> set hs. lower (fst kv) = ''version'' \<longrightarrow> snd kv = Y"
    and "strip X = X" and "X \<noteq> ''UNKNOWN''"
    and "strip Y = Y" and "Y \<noteq> []" and "Y \<noteq> ''UNKNOWN''"
    and "accepts ext (chain_requires hs)"
  shows "loads ext (header_text hs @ body) = parse_info ext (header_text hs @ body)
         \<and> (\<exists>root. loads ext (header_text hs @ body) = Inr root
               \<and> raw_name root = X \<and> version root = Y)"
proof -
  let ?text = "header_text hs @ body"
  let ?info = "parsestr ?text"
  have info: "?info = map (\<lambda>kv. (fst kv, lstrip (\<lambda>c. c = SP \<or> c = TAB) (snd kv))) hs"
    using assms(1,2) by (rule parsestr_header_text)
  have route: "loads ext ?text = parse_info ext ?text"
    using contains_field_line [OF assms(3)] by (simp add: loads_def)
  have ln: "lower ''Name'' = ''name''" and lv: "lower ''Version'' = ''version''"
    by code_simp+
  have "msg_get hs ''Name'' = Some X"
    by (rule msg_get_unique [OF assms(3) refl]) (use assms(5) in \<open>simp only: ln\<close>)
  then have n: "egg_get ?info ''Name'' = X"
    using assms(7,8) by (simp add: info egg_get_raw egg_get_value)
  have "msg_get hs ''Version'' = Some Y"
    by (rule msg_get_unique [OF assms(4) refl]) (use assms(6) in \<open>simp only: lv\<close>)
  then have v: "egg_get ?info ''Version'' = Y"
    using assms(9,11) by (simp add: info egg_get_raw egg_get_value)
  have "accepts ext (chain_requires ?info)"
    using assms(12) by (simp add: info chain_requires_raw)
  then obtain deps where "parse_info ext ?text
      = Inr ((info_root ?info)\<lparr>dependencies := deps\<rparr>)"
    using parse_info_accepts by blast
  moreover have "raw_name (info_root ?info) = X"
    using n by (simp only: raw_name_info_root)
  moreover have "version (info_root ?info) = Y"
    using v assms(10) by (simp only: version_info_root if_True simp_thms)
  ultimately show ?thesis
    using route by simp
qed


lemma parse_info_name_version:
  assumes "msg_get (parsestr content) ''Name'' = Some vx" and "strip vx \<noteq> ''UNKNOWN''"
    and "msg_get (parsestr content) ''Version'' = Some vy"
    and "strip vy \<noteq> []" and "strip vy \<noteq> ''UNKNOWN''"
    and "accepts ext (chain_requires (parsestr content))"
  shows "\<exists>root. parse_info ext content = Inr root
           \<and> raw_name root = strip vx \<and> version root = strip vy"
proof -
  have n: "egg_get (parsestr content) ''Name'' = strip vx"
    using assms(1,2) by (rule egg_get_value)
  have v: "egg_get (parsestr content) ''Version'' = strip vy"
    using assms(3,5) by (rule egg_get_value)
  obtain deps where "parse_info ext content
      = Inr ((info_root (parsestr content))\<lparr>dependencies := deps\<rparr>)"
    using parse_info_accepts [OF assms(6)] by blast
  moreover have "raw_name (info_root (parsestr content)) = strip vx"
    using n by (simp only: raw_name_info_root)
  moreover have "version (info_root (parsestr content)) = strip vy"
    using v assms(4) by (simp only: version_info_root if_True simp_thms)
  ultimately show ?thesis
    by simp
qed

text \<open>C1, as the claim states it, fails: the text with the field lines \<^verbatim>\<open>Name: UNKNOWN\<close>
  and \<^verbatim>\<open>Version: 1.0\<close> is routed to the header-form parse, and the name of the resulting
  project is empty, not \<^verbatim>\<open>UNKNOWN\<close>.\<close>

theorem loads_name_version_counterexample:
  "map_sum id raw_name (loads plain_externals ''Name: UNKNOWN\<newline>Version: 1.0\<newline>'') = Inr []"
  by code_simp

text \<open>C1, amended. For every input text that contains a field line \<^verbatim>\<open>Name: X\<close> and a field
  line \<^verbatim>\<open>Version: Y\<close>, where \<open>X\<close> is not the sentinel and \<open>Y\<close> is non-empty and not the
  sentinel, \<^verbatim>\<open>loads\<close> routes the text to the header-form parse and returns a project whose
  name is \<open>X\<close> and whose version is \<open>Y\<close>. The text is any text: that it contains the field
  lines means that the marker \<^verbatim>\<open>Name: \<close> occurs in it and that \<open>X\<close> and \<open>Y\<close> are the trimmed
  values the header parser reports for \<^verbatim>\<open>Name\<close> and \<^verbatim>\<open>Version\<close>; that it is valid means that
  the requirement parser accepts the requirements it declares.\<close>

theorem loads_name_version:
  assumes "contains content ''Name: ''"
    and "msg_get (parsestr content) ''Name'' = Some vx" and "strip vx = X"
    and "X \<noteq> ''UNKNOWN''"
    and "msg_get (parsestr content) ''Version'' = Some vy" and "strip vy = Y"
    and "Y \<noteq> []" and "Y \<noteq> ''UNKNOWN''"
    and "accepts ext (chain_requires (parsestr content))"
  shows "loads ext content = parse_info ext content
         \<and> (\<exists>root. loads ext content = Inr root \<and> raw_name root = X \<and> version root = Y)"
proof -
  have route: "loads ext content = parse_info ext content"
    using assms(1) by (simp only: loads_def if_True)
  have "strip vx \<noteq> ''UNKNOWN''" "strip vy \<noteq> []" "strip vy \<noteq> ''UNKNOWN''"
    using assms(3,4,6,7,8) by simp_all
  with assms(2,5,9)
  have "\<exists>root. parse_info ext content = Inr root
      \<and> raw_name root = strip vx \<and> version root = strip vy"
    by (intro parse_info_name_version)
  with route assms(3,6) show ?thesis
    by simp
qed

text \<open>The witness runs the theorem on a text without a final line end, on a text with
  \<^verbatim>\<open>\r\n\<close> line ends and on a text with a folded field.\<close>

theorem loads_name_version_witness:
  "(\<exists>root. loads plain_externals ''Name: a\<newline>Version: 1'' = Inr root
       \<and> raw_name root = ''a'' \<and> version root = ''1'')
   \<and> (\<exists>root. loads plain_externals (''Name: a'' @ CR # LF # ''Version: 1'' @ [CR, LF]) = Inr root
         \<and> raw_name root = ''a'' \<and> version root = ''1'')
   \<and> (\<exists>root. loads plain_externals ''Name: a\<newline>Summary: x\<newline> y\<newline>Version: 1\<newline>'' = Inr root
         \<and> raw_name root = ''a'' \<and> version root = ''1'')"
proof -
  let ?t1 = "''Name: a\<newline>Version: 1''"
  let ?t2 = "''Name: a'' @ CR # LF # ''Version: 1'' @ [CR, LF]"
  let ?t3 = "''Name: a\<newline>Summary: x\<newline> y\<newline>Version: 1\<newline>''"
  have sa: "strip ''a'' = ''a''" and s1: "strip ''1'' = ''1''"
    by code_simp+
  have xa: "''a'' \<noteq> ''UNKNOWN''" and y1: "''1'' \<noteq> []" and y2: "''1'' \<noteq> ''UNKNOWN''"
    by simp_all
  have c1: "contains ?t1 ''Name: ''"
    by code_simp
  have n1: "msg_get (parsestr ?t1) ''Name'' = Some ''a''"
    by code_simp
  have v1: "msg_get (parsestr ?t1) ''Version'' = Some ''1''"
    by code_simp
  have r1: "accepts plain_externals (chain_requires (parsestr ?t1))"
    by code_simp
  have c2: "contains ?t2 ''Name: ''"
    by code_simp
  have n2: "msg_get (parsestr ?t2) ''Name'' = Some ''a''"
    by code_simp
  have v2: "msg_get (parsestr ?t2) ''Version'' = Some ''1''"
    by code_simp
  have r2: "accepts plain_externals (chain_requires (parsestr ?t2))"
    by code_simp
  have c3: "contains ?t3 ''Name: ''"
    by code_simp
  have n3: "msg_get (parsestr ?t3) ''Name'' = Some ''a''"
    by code_simp
  have v3: "msg_get (parsestr ?t3) ''Version'' = Some ''1''"
    by code_simp
  have r3: "accepts plain_externals (chain_requires (parsestr ?t3))"
    by code_simp
  show ?thesis
    using loads_name_version [OF c1 n1 sa xa v1 s1 y1 y2 r1]
      loads_name_version [OF c2 n2 sa xa v2 s1 y1 y2 r2]
      loads_name_version [OF c3 n3 sa xa v3 s1 y1 y2 r3]
    by blast
qed

section \<open>Round trip of the demo project\<close>

lemma dumps_demo:
  "dumps [\<lparr>dep_name = ''six'', dep_extras = [], dep_version = ''>=1.10'', dep_markers = [],
           dep_source = src\<rparr>]
     ((RootDependency_init ''demo'')\<lparr>version := ''1.2.3''\<rparr>) content
   = ''Metadata-Version: 2.1\<newline>Name: demo\<newline>Version: 1.2.3\<newline>Requires: six>=1.10''"
  by (simp add: dumps_def RootDependency_init_def link_fields_def format_req_def LF_def)

text \<open>C5. For the project with name \<^verbatim>\<open>demo\<close> and version \<^verbatim>\<open>1.2.3\<close>, nothing else set, and
  the single dependency \<^verbatim>\<open>six\<close> with the version constraint \<^verbatim>\<open>>=1.10\<close>, no extras and no
  markers: the text that \<^verbatim>\<open>dumps\<close> produces has the lines \<^verbatim>\<open>Name: demo\<close>,
  \<^verbatim>\<open>Version: 1.2.3\<close> and \<^verbatim>\<open>Requires: six>=1.10\<close>, and \<^verbatim>\<open>loads\<close> of that text returns a project
  with the name \<^verbatim>\<open>demo\<close> and the version \<^verbatim>\<open>1.2.3\<close>, for every requirement parser that accepts
  \<^verbatim>\<open>six>=1.10\<close>.\<close>

theorem dumps_loads_demo:
  assumes "PackagingRequirement ext ''six>=1.10'' \<noteq> None"
    and "project = (RootDependency_init ''demo'')\<lparr>version := ''1.2.3''\<rparr>"
    and "dep = \<lparr>dep_name = ''six'', dep_extras = [], dep_version = ''>=1.10'', dep_markers = [],
                dep_source = src\<rparr>"
    and "text = dumps [dep] project content"
  shows "''Name: demo'' \<in> set (split_sep LF text)
       \<and> ''Version: 1.2.3'' \<in> set (split_sep LF text)
       \<and> ''Requires: six>=1.10'' \<in> set (split_sep LF text)
       \<and> (\<exists>root. loads ext text = Inr root \<and> raw_name root = ''demo'' \<and> version root = ''1.2.3'')"
proof -
  let ?t = "''Metadata-Version: 2.1\<newline>Name: demo\<newline>Version: 1.2.3\<newline>Requires: six>=1.10''"
  have t: "text = ?t"
    using assms(2,3,4) by (simp only: dumps_demo)
  have lines: "split_sep LF ?t
      = [''Metadata-Version: 2.1'', ''Name: demo'', ''Version: 1.2.3'', ''Requires: six>=1.10'']"
    by code_simp
  have route: "contains ?t ''Name: ''"
    by code_simp
  have info: "parsestr ?t = [(''Metadata-Version'', ''2.1''), (''Name'', ''demo''),
      (''Version'', ''1.2.3''), (''Requires'', ''six>=1.10'')]"
    by code_simp
  have n: "egg_get [(''Metadata-Version'', ''2.1''), (''Name'', ''demo''),
      (''Version'', ''1.2.3''), (''Requires'', ''six>=1.10'')] ''Name'' = ''demo''"
    by code_simp
  have v: "egg_get [(''Metadata-Version'', ''2.1''), (''Name'', ''demo''),
      (''Version'', ''1.2.3''), (''Requires'', ''six>=1.10'')] ''Version'' = ''1.2.3''"
    by code_simp
  have r: "chain_requires [(''Metadata-Version'', ''2.1''), (''Name'', ''demo''),
      (''Version'', ''1.2.3''), (''Requires'', ''six>=1.10'')] = [''six>=1.10'']"
    by code_simp
  have "accepts ext (chain_requires (parsestr ?t))"
    using assms(1) by (simp add: info r accepts_def)
  then obtain deps where "parse_info ext ?t
      = Inr ((info_root (parsestr ?t))\<lparr>dependencies := deps\<rparr>)"
    using parse_info_accepts by blast
  moreover have "raw_name (info_root (parsestr ?t)) = ''demo''"
    by (simp only: raw_name_info_root info n)
  moreover have "version (info_root (parsestr ?t)) = ''1.2.3''"
    by (simp add: version_info_root info v)
  moreover have "loads ext ?t = parse_info ext ?t"
    using route by (simp only: loads_def if_True)
  ultimately have "\<exists>root. loads ext ?t = Inr root \<and> raw_name root = ''demo''
      \<and> version root = ''1.2.3''"
    by simp
  then show ?thesis
    unfolding t lines by simp
qed

theorem dumps_loads_demo_witness:
  "PackagingRequirement plain_externals ''six>=1.10'' \<noteq> None
   \<and> ''Requires: six>=1.10'' \<in> set (split_sep LF
        (dumps [\<lparr>dep_name = ''six'', dep_extras = [], dep_version = ''>=1.10'', dep_markers = [],
                  dep_source = ''demo''\<rparr>]
           ((RootDependency_init ''demo'')\<lparr>version := ''1.2.3''\<rparr>) None))
   \<and> (\<exists>root. loads plain_externals
        (dumps [\<lparr>dep_name = ''six'', dep_extras = [], dep_version = ''>=1.10'', dep_markers = [],
                  dep_source = ''demo''\<rparr>]
           ((RootDependency_init ''demo'')\<lparr>version := ''1.2.3''\<rparr>) None) = Inr root
         \<and> raw_name root = ''demo'' \<and> version root = ''1.2.3'')"
proof -
  have a: "PackagingRequirement plain_externals ''six>=1.10'' \<noteq> None"
    by code_simp
  show ?thesis
    using a dumps_loads_demo [OF a refl refl refl] by blast
qed

end
